theory Spec2Isabelle
  imports Complex_Main
begin

section \<open>The resizable box of the story editor\<close>

text \<open>
  The component of \<^verbatim>\<open>assets/src/components/resizable-box/index.js\<close> wraps the
  editor's \<^verbatim>\<open>ResizableBox\<close> and gives it three handlers, \<^verbatim>\<open>onResizeStart\<close>,
  \<^verbatim>\<open>onResize\<close> and \<^verbatim>\<open>onResizeStop\<close>. They share seven module-level variables and
  the two variables \<^verbatim>\<open>width\<close> and \<^verbatim>\<open>height\<close> of the render closure, write inline
  styles of DOM elements and call the two callbacks of the props.

  Conventions of the embedding:
  \<^item> a finite JavaScript number is a \<^typ>\<open>real\<close>. A value that may be \<^verbatim>\<open>NaN\<close> is a
    \<open>real option\<close> with \<open>None\<close> for \<^verbatim>\<open>NaN\<close>; an \<^verbatim>\<open>undefined\<close> width or height is
    \<open>None\<close> as well, since it is falsy and gives \<^verbatim>\<open>NaN\<close> in a sum as \<^verbatim>\<open>NaN\<close> does;
  \<^item> a DOM element is a handle (\<^typ>\<open>nat\<close>); what the browser answers about the document
    (\<^verbatim>\<open>closest\<close>, \<^verbatim>\<open>querySelector\<close>, the client and scroll sizes) is a record of
    functions on handles, and the inline styles that the handlers write are a store
    from handles to styles inside the state;
  \<^item> the inline \<^verbatim>\<open>top\<close> and \<^verbatim>\<open>left\<close> of an element are \<open>None\<close> for the empty string
    and \<open>Some n\<close> for the string that JavaScript prints for \<open>n\<close>, followed by \<^verbatim>\<open>%\<close>;
    the inline \<^verbatim>\<open>width\<close> and \<^verbatim>\<open>height\<close>, which the handlers write and never read,
    are the numbers of \<^verbatim>\<open>"<n>px"\<close>;
  \<^item> reading a property of \<^verbatim>\<open>null\<close> is the error \<open>TypeError\<close>;
  \<^item> a call of a callback of the props is appended to the log \<open>calls\<close> of the state.
\<close>

subsection \<open>Numbers\<close>

type_synonym num = "real option"

text \<open>\<^verbatim>\<open>! x\<close>: zero, \<^verbatim>\<open>NaN\<close> and \<^verbatim>\<open>undefined\<close> are falsy.\<close>

definition falsy :: "num \<Rightarrow> bool" where
  "falsy x \<longleftrightarrow> x = None \<or> x = Some 0"

text \<open>\<^verbatim>\<open>x + y\<close> and \<^verbatim>\<open>x < y\<close> for a finite \<open>y\<close>: a sum with \<^verbatim>\<open>NaN\<close> is \<^verbatim>\<open>NaN\<close>, a
  comparison with \<^verbatim>\<open>NaN\<close> is false.\<close>

definition num_add :: "num \<Rightarrow> real \<Rightarrow> num" where
  "num_add x y = (case x of None \<Rightarrow> None | Some v \<Rightarrow> Some (v + y))"

definition num_less :: "num \<Rightarrow> real \<Rightarrow> bool" where
  "num_less x y = (case x of None \<Rightarrow> False | Some v \<Rightarrow> v < y)"

text \<open>What an inline style property holds after the assignment of a percentage: the
  string \<^verbatim>\<open>NaN%\<close> is no CSS value, and the browser leaves the property as it is when it
  is assigned one.\<close>

definition assigned :: "num \<Rightarrow> num \<Rightarrow> num" where
  "assigned old new = (case new of None \<Rightarrow> old | Some v \<Rightarrow> Some v)"

text \<open>A binary arithmetic operation: \<^verbatim>\<open>NaN\<close> when an operand is.\<close>

definition num_op :: "(real \<Rightarrow> real \<Rightarrow> real) \<Rightarrow> num \<Rightarrow> num \<Rightarrow> num" where
  "num_op f x y =
     (case x of None \<Rightarrow> None | Some a \<Rightarrow> (case y of None \<Rightarrow> None | Some b \<Rightarrow> Some (f a b)))"

text \<open>
  \<^verbatim>\<open>parseInt( x, 10 )\<close> reads the decimal digits at the head of the string of \<open>x\<close>.
  JavaScript prints a number \<open>x\<close> with \<open>1e-6 \<le> |x| < 1e21\<close>, and \<open>0\<close>, in positional
  notation, of which the digits before the point are \<open>x\<close> cut towards zero. It prints any
  other finite number with an exponent, as \<^verbatim>\<open>d.ddde-7\<close>, and then the digits at the head
  are the first significant digit \<open>d\<close> alone. The string of \<^verbatim>\<open>NaN\<close>, of
  \<^verbatim>\<open>undefined\<close> and the empty string have no digit at the head: the result is
  \<^verbatim>\<open>NaN\<close>. The same holds of the string of a number followed by a unit.
\<close>

definition exponentForm :: "real \<Rightarrow> bool" where
  "exponentForm x \<longleftrightarrow>
     x \<noteq> 0 \<and> (\<bar>x\<bar> < 1 / 1000000 \<or> 1000000000000000000000 \<le> \<bar>x\<bar>)"

definition leadingDigit :: "real \<Rightarrow> int" where
  "leadingDigit x = \<lfloor>\<bar>x\<bar> / 10 powr of_int \<lfloor>log 10 \<bar>x\<bar>\<rfloor>\<rfloor>"

definition parseInt_number :: "real \<Rightarrow> int" where
  "parseInt_number x =
     (if exponentForm x then (if x < 0 then - leadingDigit x else leadingDigit x)
      else if 0 \<le> x then \<lfloor>x\<rfloor> else \<lceil>x\<rceil>)"

definition parseInt :: "num \<Rightarrow> int option" where
  "parseInt x = (case x of None \<Rightarrow> None | Some v \<Rightarrow> Some (parseInt_number v))"

subsection \<open>Data\<close>

type_synonym elem = nat

datatype error = TypeError

datatype axis = AxisX | AxisY

datatype direction =
  DirTop | DirRight | DirBottom | DirLeft | DirTopRight | DirBottomRight | DirBottomLeft | DirTopLeft

record event =
  clientX :: real
  clientY :: real

record positioning =
  pos_left :: real
  pos_top :: real

record style =
  style_top :: num
  style_left :: num
  style_width :: real
  style_height :: real

text \<open>The props that the handlers read (\<^verbatim>\<open>props.width\<close> and \<^verbatim>\<open>props.height\<close> are copied
  into the closure variables \<^verbatim>\<open>width\<close> and \<^verbatim>\<open>height\<close> at every render). The angle and
  the minimum width and height are numbers; the width and the height may be unset.\<close>

record props =
  angle :: real
  blockName :: string
  ampFitText :: bool
  minWidth :: real
  minHeight :: real
  props_width :: num
  props_height :: num

text \<open>The argument of the \<^verbatim>\<open>onResizeStop\<close> callback of the props; a field is \<open>None\<close>
  where \<^verbatim>\<open>parseInt\<close> gave \<^verbatim>\<open>NaN\<close>.\<close>

record measure_result =
  res_width :: "int option"
  res_height :: "int option"
  positionTop :: "int option"
  positionLeft :: "int option"

datatype callback = CallResizeStart | CallResizeStop measure_result

text \<open>What the browser reports about the document.\<close>

record document =
  closest :: "elem \<Rightarrow> string \<Rightarrow> elem option"
  querySelector :: "elem \<Rightarrow> string \<Rightarrow> elem option"
  clientWidth :: "elem \<Rightarrow> real"
  clientHeight :: "elem \<Rightarrow> real"
  scrollWidth :: "elem \<Rightarrow> real"
  scrollHeight :: "elem \<Rightarrow> real"

text \<open>
  The imports of the component from \<^verbatim>\<open>stories-editor/helpers\<close> and
  \<^verbatim>\<open>stories-editor/constants\<close>, which are not among the sources: the handlers are
  parametrised by them, as functions of finite numbers.
\<close>

record helpers =
  getResizedWidthAndHeight :: "event \<Rightarrow> real \<Rightarrow> real \<Rightarrow> real \<Rightarrow> direction \<Rightarrow> real \<times> real"
  getPercentageFromPixels :: "axis \<Rightarrow> real \<Rightarrow> real"
  getPixelsFromPercentage :: "axis \<Rightarrow> real \<Rightarrow> real"
  getBlockPositioning :: "real \<Rightarrow> real \<Rightarrow> real \<Rightarrow> positioning"
  getRadianFromDeg :: "real \<Rightarrow> real"
  BLOCKS_WITH_TEXT_SETTINGS :: "string list"

text \<open>
  The module-level variables (lines 25 to 31), the closure variables \<open>width\<close> and
  \<open>height\<close> (lines 47 to 50), the inline styles and the log of callback calls. The
  variables \<^verbatim>\<open>blockElementTop\<close> and \<^verbatim>\<open>blockElementLeft\<close> hold the strings read from the
  inline style; they start undefined, which \<^verbatim>\<open>parseInt\<close> takes as it takes the empty
  string.
\<close>

record state =
  lastSeenX :: real
  lastSeenY :: real
  blockElement :: "elem option"
  blockElementTop :: num
  blockElementLeft :: num
  imageWrapper :: "elem option"
  textElement :: "elem option"
  width :: num
  height :: num
  styles :: "elem \<Rightarrow> style"
  calls :: "callback list"

subsection \<open>The handlers\<close>

definition isImage :: "props \<Rightarrow> bool" where
  "isImage p \<longleftrightarrow> blockName p = ''core/image''"

definition isBlockWithText :: "helpers \<Rightarrow> props \<Rightarrow> bool" where
  "isBlockWithText H p \<longleftrightarrow> blockName p \<in> set (BLOCKS_WITH_TEXT_SETTINGS H)"

text \<open>Lines 47 to 50: a render binds \<^verbatim>\<open>width\<close> and \<^verbatim>\<open>height\<close> to the props. The
  handlers of one gesture are those of one render, so that what a move event assigns to
  these variables is still there at the end of the gesture.\<close>

definition render :: "props \<Rightarrow> state \<Rightarrow> state" where
  "render p s = s\<lparr>width := props_width p, height := props_height p\<rparr>"

text \<open>Lines 93 to 120. \<^verbatim>\<open>querySelector\<close> may answer \<^verbatim>\<open>null\<close>, which is stored as it is;
  \<^verbatim>\<open>closest\<close> answering \<^verbatim>\<open>null\<close> makes the read of \<^verbatim>\<open>blockElement.style\<close> throw.\<close>

definition onResizeStart ::
  "helpers \<Rightarrow> document \<Rightarrow> props \<Rightarrow> event \<Rightarrow> direction \<Rightarrow> elem \<Rightarrow> state \<Rightarrow> error + state" where
  "onResizeStart H D p ev dir element s =
    (case closest D element ''.wp-block'' of
       None \<Rightarrow> Inl TypeError
     | Some b \<Rightarrow>
        let s1 = s\<lparr>lastSeenX := clientX ev, lastSeenY := clientY ev, blockElement := Some b,
                   blockElementTop := style_top (styles s b),
                   blockElementLeft := style_left (styles s b)\<rparr>;
            s2 = (if isImage p
                  then s1\<lparr>imageWrapper :=
                         querySelector D b ''figure .components-resizable-box__container''\<rparr>
                  else s1);
            s3 = (if isBlockWithText H p \<and> \<not> ampFitText p then
                    (if blockName p = ''amp/amp-story-text'' then
                       s2\<lparr>textElement := querySelector D b
                         ''.block-editor-rich-text__editable.editor-rich-text__editable''\<rparr>
                     else if blockName p = ''amp/amp-story-post-title'' then
                       s2\<lparr>textElement := querySelector D b ''.wp-block-amp-amp-story-post-title''\<rparr>
                     else if blockName p = ''amp/amp-story-post-author'' then
                       s2\<lparr>textElement := querySelector D b ''.wp-block-amp-amp-story-post-author''\<rparr>
                     else if blockName p = ''amp/amp-story-post-date'' then
                       s2\<lparr>textElement := querySelector D b ''.wp-block-amp-amp-story-post-date''\<rparr>
                     else s2)
                  else s2)
        in Inr (s3\<lparr>calls := calls s3 @ [CallResizeStart]\<rparr>))"

text \<open>Writing \<^verbatim>\<open>e.style.width\<close> and \<^verbatim>\<open>e.style.height\<close>.\<close>

definition setSize :: "elem \<Rightarrow> real \<Rightarrow> real \<Rightarrow> state \<Rightarrow> state" where
  "setSize e w h s =
     s\<lparr>styles := (styles s)(e := (styles s e)\<lparr>style_width := w, style_height := h\<rparr>)\<rparr>"

text \<open>Writing \<^verbatim>\<open>e.style.left\<close>, then \<^verbatim>\<open>e.style.top\<close>.\<close>

definition setPosition :: "elem \<Rightarrow> num \<Rightarrow> num \<Rightarrow> state \<Rightarrow> state" where
  "setPosition e l t s =
     s\<lparr>styles := (styles s)(e := (styles s e)
        \<lparr>style_left := assigned (style_left (styles s e)) l,
         style_top := assigned (style_top (styles s e)) t\<rparr>)\<rparr>"

text \<open>
  Lines 121 to 171, \<^verbatim>\<open>onResize\<close>, in the four steps of its body.

  Lines 124 to 128: media inserted from a URL has neither width nor height, and both are
  read from the block element.
\<close>

definition readRenderedSize :: "document \<Rightarrow> props \<Rightarrow> state \<Rightarrow> error + state" where
  "readRenderedSize D p s =
     (if isImage p \<and> falsy (width s) \<and> falsy (height s) then
        (case blockElement s of
           None \<Rightarrow> Inl TypeError
         | Some b \<Rightarrow>
             Inr (s\<lparr>width := Some (clientWidth D b), height := Some (clientHeight D b)\<rparr>))
      else Inr s)"

text \<open>Lines 129 and 130. The comparison is false for a width that is \<^verbatim>\<open>NaN\<close>, and the
  minimum is applied.\<close>

definition appliedWidth :: "props \<Rightarrow> state \<Rightarrow> real \<Rightarrow> real" where
  "appliedWidth p s deltaW =
     (case width s of
        None \<Rightarrow> minWidth p
      | Some w \<Rightarrow> (if minWidth p \<le> w + deltaW then w + deltaW else minWidth p))"

definition appliedHeight :: "props \<Rightarrow> state \<Rightarrow> real \<Rightarrow> real" where
  "appliedHeight p s deltaH =
     (case height s of
        None \<Rightarrow> minHeight p
      | Some h \<Rightarrow> (if minHeight p \<le> h + deltaH then h + deltaH else minHeight p))"

text \<open>
  Lines 132 to 162. The helpers, which are not among the sources, are functions of finite
  numbers; on a \<^verbatim>\<open>NaN\<close> argument they are taken to give \<^verbatim>\<open>NaN\<close>, as arithmetic in
  JavaScript does, so that \<^verbatim>\<open>NaN\<close> reaches the assignment of the style, which the
  browser ignores. The assignment to the undefined
  \<^verbatim>\<open>diff.right\<close> of line 152 stores a value that nothing reads and is left out. In line
  151 an applied height of \<open>0\<close> gives \<^verbatim>\<open>diff.left / Infinity\<close>, which is \<open>0\<close>, as is
  \<open>x / (60 / 0)\<close> in HOL.
\<close>

definition updatePosition :: "helpers \<Rightarrow> props \<Rightarrow> real \<Rightarrow> real \<Rightarrow> state \<Rightarrow> error + state" where
  "updatePosition H p aw ah s =
     (if angle p \<noteq> 0 then
        (let radianAngle = getRadianFromDeg H (angle p);
             resizedPosition = getBlockPositioning H aw ah radianAngle;
             diff_left =
               num_op (\<lambda>w h. pos_left resizedPosition
                             - pos_left (getBlockPositioning H w h radianAngle))
                 (width s) (height s);
             diff_top =
               num_op (\<lambda>w h. pos_top resizedPosition
                             - pos_top (getBlockPositioning H w h radianAngle))
                 (width s) (height s);
             originalPos_left =
               map_option (\<lambda>n. getPixelsFromPercentage H AxisX (of_int n))
                 (parseInt (blockElementLeft s));
             originalPos_top =
               map_option (\<lambda>n. getPixelsFromPercentage H AxisY (of_int n))
                 (parseInt (blockElementTop s));
             diff_left' =
               (if ah < 60 then map_option (\<lambda>d. d / (60 / ah)) diff_left else diff_left);
             updatedPos_left = num_op (\<lambda>a b. a - b) originalPos_left diff_left';
             updatedPos_top = num_op (\<lambda>a b. a + b) originalPos_top diff_top
         in case blockElement s of
              None \<Rightarrow> Inl TypeError
            | Some b \<Rightarrow>
                Inr (setPosition b
                       (map_option (getPercentageFromPixels H AxisX) updatedPos_left)
                       (map_option (getPercentageFromPixels H AxisY) updatedPos_top) s))
      else Inr s)"

text \<open>Lines 164 to 170.\<close>

definition updateSize :: "props \<Rightarrow> elem \<Rightarrow> real \<Rightarrow> real \<Rightarrow> state \<Rightarrow> state" where
  "updateSize p element aw ah s =
     (let s' = setSize element aw ah s
      in case imageWrapper s' of
           Some w \<Rightarrow> (if isImage p then setSize w aw ah s' else s')
         | None \<Rightarrow> s')"

definition onResize ::
  "helpers \<Rightarrow> document \<Rightarrow> props \<Rightarrow> event \<Rightarrow> direction \<Rightarrow> elem \<Rightarrow> state \<Rightarrow> error + state" where
  "onResize H D p ev dir element s =
    (let (deltaW, deltaH) =
           getResizedWidthAndHeight H ev (angle p) (lastSeenX s) (lastSeenY s) dir
     in
     case readRenderedSize D p s of
       Inl e \<Rightarrow> Inl e
     | Inr s1 \<Rightarrow>
        (case updatePosition H p (appliedWidth p s1 deltaW) (appliedHeight p s1 deltaH) s1 of
           Inl e \<Rightarrow> Inl e
         | Inr s2 \<Rightarrow>
             Inr (updateSize p element (appliedWidth p s1 deltaW) (appliedHeight p s1 deltaH) s2)))"

text \<open>Lines 73 to 92. The early \<^verbatim>\<open>return\<close> of line 82 leaves everything as it is.\<close>

definition onResizeStop ::
  "helpers \<Rightarrow> document \<Rightarrow> props \<Rightarrow> event \<Rightarrow> direction \<Rightarrow> state \<Rightarrow> error + state" where
  "onResizeStop H D p ev dir s =
    (let (deltaW, deltaH) =
           getResizedWidthAndHeight H ev (angle p) (lastSeenX s) (lastSeenY s) dir;
         appliedWidth = num_add (width s) deltaW;
         appliedHeight = num_add (height s) deltaH
     in
     if (case textElement s of
           None \<Rightarrow> False
         | Some t \<Rightarrow> num_less appliedWidth (scrollWidth D t)
                     \<or> num_less appliedHeight (scrollHeight D t))
     then Inr s
     else
       (case blockElement s of
          None \<Rightarrow> Inl TypeError
        | Some b \<Rightarrow>
            Inr (s\<lparr>calls := calls s @
                   [CallResizeStop
                      \<lparr>res_width = parseInt appliedWidth,
                       res_height = parseInt appliedHeight,
                       positionTop = parseInt (style_top (styles s b)),
                       positionLeft = parseInt (style_left (styles s b))\<rparr>]\<rparr>)))"

subsection \<open>Gestures\<close>

text \<open>The host calls \<^verbatim>\<open>onResize\<close> once for every pointer move of a gesture; an uncaught
  error ends the run.\<close>

type_synonym move = "event \<times> direction \<times> elem"

fun moves :: "helpers \<Rightarrow> document \<Rightarrow> props \<Rightarrow> move list \<Rightarrow> state \<Rightarrow> error + state" where
  "moves H D p [] s = Inr s"
| "moves H D p ((ev, dir, element) # ms) s =
     (case onResize H D p ev dir element s of
        Inl e \<Rightarrow> Inl e
      | Inr s' \<Rightarrow> moves H D p ms s')"

text \<open>The state of a freshly loaded module, over given inline styles.\<close>

definition init_state :: "(elem \<Rightarrow> style) \<Rightarrow> state" where
  "init_state st =
     \<lparr>lastSeenX = 0, lastSeenY = 0, blockElement = None, blockElementTop = None,
      blockElementLeft = None, imageWrapper = None, textElement = None,
      width = None, height = None, styles = st, calls = []\<rparr>"

text \<open>Running one handler after another; an uncaught error ends the run.\<close>

definition andThen :: "error + state \<Rightarrow> (state \<Rightarrow> error + state) \<Rightarrow> error + state" where
  "andThen r f = (case r of Inl e \<Rightarrow> Inl e | Inr s \<Rightarrow> f s)"

subsection \<open>Vocabulary of the statements\<close>

text \<open>The width and height that a move event takes as its baseline: the closure's,
  or those of the rendered block element after lines 124 to 128.\<close>

definition baseWidth :: "document \<Rightarrow> props \<Rightarrow> state \<Rightarrow> num" where
  "baseWidth D p s =
     (if isImage p \<and> falsy (width s) \<and> falsy (height s)
      then (case blockElement s of Some b \<Rightarrow> Some (clientWidth D b) | None \<Rightarrow> width s)
      else width s)"

definition baseHeight :: "document \<Rightarrow> props \<Rightarrow> state \<Rightarrow> num" where
  "baseHeight D p s =
     (if isImage p \<and> falsy (width s) \<and> falsy (height s)
      then (case blockElement s of Some b \<Rightarrow> Some (clientHeight D b) | None \<Rightarrow> height s)
      else height s)"

text \<open>The size that lines 129 and 130 apply to a baseline \<open>base\<close>, a delta \<open>d\<close> and a
  minimum \<open>m\<close>: the baseline plus the delta, and the minimum where that is lower or
  \<^verbatim>\<open>NaN\<close>.\<close>

definition appliedSize :: "real \<Rightarrow> num \<Rightarrow> real \<Rightarrow> real" where
  "appliedSize m base d = (case base of None \<Rightarrow> m | Some v \<Rightarrow> max (v + d) m)"

text \<open>The left and top that lines 133 to 161 compute from a finite baseline \<open>w\<close>, \<open>h\<close>,
  the applied size \<open>aw\<close>, \<open>ah\<close> and the position cached at the start of the gesture.\<close>

definition previewLeft :: "helpers \<Rightarrow> props \<Rightarrow> real \<Rightarrow> real \<Rightarrow> real \<Rightarrow> real \<Rightarrow> real \<Rightarrow> real" where
  "previewLeft H p w h aw ah cachedLeft =
     (let r = getRadianFromDeg H (angle p);
          d = pos_left (getBlockPositioning H aw ah r) - pos_left (getBlockPositioning H w h r)
      in getPercentageFromPixels H AxisX
           (getPixelsFromPercentage H AxisX (of_int (parseInt_number cachedLeft))
              - (if ah < 60 then d / (60 / ah) else d)))"

definition previewTop :: "helpers \<Rightarrow> props \<Rightarrow> real \<Rightarrow> real \<Rightarrow> real \<Rightarrow> real \<Rightarrow> real \<Rightarrow> real" where
  "previewTop H p w h aw ah cachedTop =
     (let r = getRadianFromDeg H (angle p);
          d = pos_top (getBlockPositioning H aw ah r) - pos_top (getBlockPositioning H w h r)
      in getPercentageFromPixels H AxisY
           (getPixelsFromPercentage H AxisY (of_int (parseInt_number cachedTop)) + d))"

text \<open>The same for a baseline and a cached position that may be \<^verbatim>\<open>NaN\<close> or unset: the
  value is \<^verbatim>\<open>NaN\<close> then.\<close>

definition writtenLeft :: "helpers \<Rightarrow> props \<Rightarrow> num \<Rightarrow> num \<Rightarrow> real \<Rightarrow> real \<Rightarrow> num \<Rightarrow> num" where
  "writtenLeft H p w h aw ah cachedLeft =
     (case w of None \<Rightarrow> None | Some w' \<Rightarrow>
        (case h of None \<Rightarrow> None | Some h' \<Rightarrow>
           (case cachedLeft of None \<Rightarrow> None
            | Some c \<Rightarrow> Some (previewLeft H p w' h' aw ah c))))"

definition writtenTop :: "helpers \<Rightarrow> props \<Rightarrow> num \<Rightarrow> num \<Rightarrow> real \<Rightarrow> real \<Rightarrow> num \<Rightarrow> num" where
  "writtenTop H p w h aw ah cachedTop =
     (case w of None \<Rightarrow> None | Some w' \<Rightarrow>
        (case h of None \<Rightarrow> None | Some h' \<Rightarrow>
           (case cachedTop of None \<Rightarrow> None
            | Some c \<Rightarrow> Some (previewTop H p w' h' aw ah c))))"

text \<open>What a preview shows: the inline size and the inline position of an element.\<close>

definition previewSize :: "elem \<Rightarrow> state \<Rightarrow> real \<times> real" where
  "previewSize e s = (style_width (styles s e), style_height (styles s e))"

definition previewPosition :: "elem \<Rightarrow> state \<Rightarrow> num \<times> num" where
  "previewPosition e s = (style_top (styles s e), style_left (styles s e))"


subsection \<open>The imported helpers\<close>

text \<open>
  The functions of \<^verbatim>\<open>stories-editor/helpers\<close> and the list of
  \<^verbatim>\<open>stories-editor/constants\<close> that the component imports are missing from the
  sources. The definitions of this subsection follow the spec instead. They are used for
  the concrete runs only: every general statement below holds for all helpers.
\<close>

text \<open>Modelled from the spec: \<^verbatim>\<open>getRadianFromDeg\<close> is missing; the spec gives the
  standard conversion \<open>deg * pi / 180\<close>.\<close>

definition getRadianFromDeg_spec :: "real \<Rightarrow> real" where
  "getRadianFromDeg_spec deg = deg * pi / 180"

text \<open>Modelled from the spec: \<^verbatim>\<open>getBlockPositioning\<close> is missing; the spec gives the
  anchored offset \<open>left = (width cos t - height sin t) / 2\<close>,
  \<open>top = (width sin t + height cos t) / 2\<close>.\<close>

definition getBlockPositioning_spec :: "real \<Rightarrow> real \<Rightarrow> real \<Rightarrow> positioning" where
  "getBlockPositioning_spec w h t =
     \<lparr>pos_left = (w * cos t - h * sin t) / 2, pos_top = (w * sin t + h * cos t) / 2\<rparr>"

text \<open>Modelled from the spec: \<^verbatim>\<open>getPercentageFromPixels\<close> is missing; the spec divides
  by the extent of the container along the axis and multiplies by 100, without rounding.\<close>

definition getPercentageFromPixels_spec :: "real \<Rightarrow> real \<Rightarrow> axis \<Rightarrow> real \<Rightarrow> real" where
  "getPercentageFromPixels_spec containerWidth containerHeight a pixels =
     (case a of AxisX \<Rightarrow> pixels / containerWidth * 100
              | AxisY \<Rightarrow> pixels / containerHeight * 100)"

text \<open>Modelled from the spec: \<^verbatim>\<open>getPixelsFromPercentage\<close> is missing; the spec makes it
  the inverse of the conversion to a percentage.\<close>

definition getPixelsFromPercentage_spec :: "real \<Rightarrow> real \<Rightarrow> axis \<Rightarrow> real \<Rightarrow> real" where
  "getPixelsFromPercentage_spec containerWidth containerHeight a percentage =
     (case a of AxisX \<Rightarrow> percentage * containerWidth / 100
              | AxisY \<Rightarrow> percentage * containerHeight / 100)"

text \<open>Modelled from the spec: the test of the dragged edges inside
  \<^verbatim>\<open>getResizedWidthAndHeight\<close> is missing; the spec applies the deltas along the right
  and the bottom edge and ignores the left and the top edge.\<close>

fun dragsRight :: "direction \<Rightarrow> bool" where
  "dragsRight DirRight = True"
| "dragsRight DirTopRight = True"
| "dragsRight DirBottomRight = True"
| "dragsRight _ = False"

fun dragsBottom :: "direction \<Rightarrow> bool" where
  "dragsBottom DirBottom = True"
| "dragsBottom DirBottomRight = True"
| "dragsBottom DirBottomLeft = True"
| "dragsBottom _ = False"

text \<open>Modelled from the spec: \<^verbatim>\<open>getResizedWidthAndHeight\<close> is missing; the spec rotates
  the pointer delta \<open>(dx, dy)\<close> by the negated angle into the frame of the rectangle and
  takes the width delta from the local x component and the height delta from the local y
  component.\<close>

definition getResizedWidthAndHeight_spec ::
  "event \<Rightarrow> real \<Rightarrow> real \<Rightarrow> real \<Rightarrow> direction \<Rightarrow> real \<times> real" where
  "getResizedWidthAndHeight_spec ev deg x0 y0 dir =
     (let dx = clientX ev - x0;
          dy = clientY ev - y0;
          t = getRadianFromDeg_spec deg
      in (if dragsRight dir then dx * cos t + dy * sin t else 0,
          if dragsBottom dir then dy * cos t - dx * sin t else 0))"

text \<open>Modelled from the spec: \<^verbatim>\<open>BLOCKS_WITH_TEXT_SETTINGS\<close> is missing; the spec lists
  the text-bearing kinds as plain text, post title, post author and post date, the four
  names of the switch in lines 103 to 116. The helpers are closed over the extent of the
  container.\<close>

definition helpers_spec :: "real \<Rightarrow> real \<Rightarrow> helpers" where
  "helpers_spec containerWidth containerHeight =
     \<lparr>getResizedWidthAndHeight = getResizedWidthAndHeight_spec,
      getPercentageFromPixels = getPercentageFromPixels_spec containerWidth containerHeight,
      getPixelsFromPercentage = getPixelsFromPercentage_spec containerWidth containerHeight,
      getBlockPositioning = getBlockPositioning_spec,
      getRadianFromDeg = getRadianFromDeg_spec,
      BLOCKS_WITH_TEXT_SETTINGS =
        [''amp/amp-story-text'', ''amp/amp-story-post-title'',
         ''amp/amp-story-post-author'', ''amp/amp-story-post-date'']\<rparr>"

subsection \<open>A page for the concrete runs\<close>

text \<open>
  A page of 800 by 600 pixels with two blocks. Element 1 is the resizable box of the text
  block 10, whose editable text is element 11, 200 by 50 pixels of content. Element 2 is the
  resizable box of the image block 20, rendered 300 by 150 pixels, with the wrapper 21.
  Every element starts at a given top and left, in percent, and at 200 by 100 pixels.
\<close>

definition page :: document where
  "page =
     \<lparr>closest = (\<lambda>e sel. if sel = ''.wp-block'' then
                             (if e = 1 then Some 10 else if e = 2 then Some 20 else None)
                           else None),
      querySelector = (\<lambda>e sel.
        if e = 10 \<and> sel = ''.block-editor-rich-text__editable.editor-rich-text__editable''
        then Some 11
        else if e = 20 \<and> sel = ''figure .components-resizable-box__container''
        then Some 21
        else None),
      clientWidth = (\<lambda>e. if e = 20 then 300 else 0),
      clientHeight = (\<lambda>e. if e = 20 then 150 else 0),
      scrollWidth = (\<lambda>e. if e = 11 then 200 else 0),
      scrollHeight = (\<lambda>e. if e = 11 then 50 else 0)\<rparr>"

definition styles_at :: "real \<Rightarrow> real \<Rightarrow> elem \<Rightarrow> style" where
  "styles_at t l e =
     \<lparr>style_top = Some t, style_left = Some l, style_width = 200, style_height = 100\<rparr>"

definition page_styles :: "elem \<Rightarrow> style" where
  "page_styles = styles_at 10 10"

definition page_helpers :: helpers where
  "page_helpers = helpers_spec 800 600"

definition text_props :: "real \<Rightarrow> props" where
  "text_props a =
     \<lparr>angle = a, blockName = ''amp/amp-story-text'', ampFitText = False,
      minWidth = 50, minHeight = 50, props_width = Some 200, props_height = Some 100\<rparr>"

definition image_props :: "num \<Rightarrow> num \<Rightarrow> props" where
  "image_props w h =
     \<lparr>angle = 0, blockName = ''core/image'', ampFitText = False,
      minWidth = 50, minHeight = 50, props_width = w, props_height = h\<rparr>"

definition pointer :: "real \<Rightarrow> real \<Rightarrow> event" where
  "pointer x y = \<lparr>clientX = x, clientY = y\<rparr>"

subsection \<open>States of the concrete runs\<close>

text \<open>The lemmas and definitions that a concrete run unfolds.\<close>

lemmas run_defs =
  andThen_def onResizeStart_def onResize_def onResizeStop_def readRenderedSize_def
  appliedWidth_def appliedHeight_def updatePosition_def updateSize_def setSize_def setPosition_def
  render_def init_state_def isImage_def isBlockWithText_def
  falsy_def assigned_def num_add_def num_less_def num_op_def parseInt_def parseInt_number_def exponentForm_def
  previewSize_def previewPosition_def baseWidth_def baseHeight_def appliedSize_def
  page_def page_styles_def styles_at_def page_helpers_def helpers_spec_def text_props_def
  image_props_def pointer_def getRadianFromDeg_spec_def getBlockPositioning_spec_def
  getPercentageFromPixels_spec_def getPixelsFromPercentage_spec_def
  getResizedWidthAndHeight_spec_def

text \<open>The image block with a given stored size, after the start of a gesture at (100, 100).\<close>

definition started_image :: "num \<Rightarrow> num \<Rightarrow> state" where
  "started_image w h =
     \<lparr>lastSeenX = 100, lastSeenY = 100, blockElement = Some 20,
      blockElementTop = Some 10, blockElementLeft = Some 10, imageWrapper = Some 21,
      textElement = None, width = w, height = h, styles = page_styles,
      calls = [CallResizeStart]\<rparr>"

text \<open>The text block, after the start of a gesture at (100, 100), at a given angle.\<close>

definition started_text :: "real \<Rightarrow> state" where
  "started_text a =
     \<lparr>lastSeenX = 100, lastSeenY = 100, blockElement = Some 10,
      blockElementTop = Some 10, blockElementLeft = Some 10, imageWrapper = None,
      textElement = Some 11, width = Some 200, height = Some 100, styles = page_styles,
      calls = [CallResizeStart]\<rparr>"

text \<open>The text block at 180 degrees, after the start at (100, 100) and a move to
  (79.3, 145), which asks for 220.7 by 55 pixels.\<close>

definition moved_text :: state where
  "moved_text =
     \<lparr>lastSeenX = 100, lastSeenY = 100, blockElement = Some 10,
      blockElementTop = Some 10, blockElementLeft = Some 10, imageWrapper = None,
      textElement = Some 11, width = Some 200, height = Some 100,
      styles = page_styles
        (10 := \<lparr>style_top = Some (55 / 4), style_left = Some (35795 / 3200),
                style_width = 200, style_height = 100\<rparr>,
         1 := \<lparr>style_top = Some 10, style_left = Some 10,
               style_width = 2207 / 10, style_height = 55\<rparr>),
      calls = [CallResizeStart]\<rparr>"

text \<open>
  Two gestures on the page, one after the other: the text block is started at (100, 100)
  and ended at (150, 130); then the image block, stored at 200 by 100 pixels and rendered
  by its own instance of the component, is started at (100, 100) and ended at a given
  pointer position.
\<close>

definition text_gesture :: "error + state" where
  "text_gesture =
     andThen
       (onResizeStart page_helpers page (text_props 0) (pointer 100 100) DirBottomRight 1
          (render (text_props 0) (init_state page_styles)))
       (onResizeStop page_helpers page (text_props 0) (pointer 150 130) DirBottomRight)"

definition image_start :: "state \<Rightarrow> error + state" where
  "image_start s =
     onResizeStart page_helpers page (image_props (Some 200) (Some 100)) (pointer 100 100)
       DirBottomRight 2 (render (image_props (Some 200) (Some 100)) s)"

definition image_gesture :: "event \<Rightarrow> state \<Rightarrow> error + state" where
  "image_gesture ev s =
     andThen
       (andThen (image_start s)
          (onResize page_helpers page (image_props (Some 200) (Some 100)) ev DirBottomRight 2))
       (onResizeStop page_helpers page (image_props (Some 200) (Some 100)) ev DirBottomRight)"

section \<open>Properties\<close>

subsection \<open>Reading integers\<close>



subsection \<open>The steps of the move handler\<close>

lemma setSize_simps [simp]:
  "lastSeenX (setSize e w h s) = lastSeenX s"
  "lastSeenY (setSize e w h s) = lastSeenY s"
  "blockElement (setSize e w h s) = blockElement s"
  "blockElementTop (setSize e w h s) = blockElementTop s"
  "blockElementLeft (setSize e w h s) = blockElementLeft s"
  "imageWrapper (setSize e w h s) = imageWrapper s"
  "textElement (setSize e w h s) = textElement s"
  "width (setSize e w h s) = width s"
  "height (setSize e w h s) = height s"
  "calls (setSize e w h s) = calls s"
  "style_top (styles (setSize e w h s) x) = style_top (styles s x)"
  "style_left (styles (setSize e w h s) x) = style_left (styles s x)"
  "style_width (styles (setSize e w h s) x) = (if x = e then w else style_width (styles s x))"
  "style_height (styles (setSize e w h s) x) = (if x = e then h else style_height (styles s x))"
  by (simp_all add: setSize_def)

lemma setPosition_simps [simp]:
  "lastSeenX (setPosition e l t s) = lastSeenX s"
  "lastSeenY (setPosition e l t s) = lastSeenY s"
  "blockElement (setPosition e l t s) = blockElement s"
  "blockElementTop (setPosition e l t s) = blockElementTop s"
  "blockElementLeft (setPosition e l t s) = blockElementLeft s"
  "imageWrapper (setPosition e l t s) = imageWrapper s"
  "textElement (setPosition e l t s) = textElement s"
  "width (setPosition e l t s) = width s"
  "height (setPosition e l t s) = height s"
  "calls (setPosition e l t s) = calls s"
  "style_width (styles (setPosition e l t s) x) = style_width (styles s x)"
  "style_height (styles (setPosition e l t s) x) = style_height (styles s x)"
  "style_left (styles (setPosition e l t s) x) =
     (if x = e then assigned (style_left (styles s e)) l else style_left (styles s x))"
  "style_top (styles (setPosition e l t s) x) =
     (if x = e then assigned (style_top (styles s e)) t else style_top (styles s x))"
  by (simp_all add: setPosition_def)

lemma assigned_simps [simp]:
  "assigned old None = old" "assigned old (Some v) = Some v"
  by (simp_all add: assigned_def)

lemma written_finite [simp]:
  "writtenLeft H p (Some w) (Some h) aw ah (Some c) = Some (previewLeft H p w h aw ah c)"
  "writtenTop H p (Some w) (Some h) aw ah (Some c) = Some (previewTop H p w h aw ah c)"
  by (simp_all add: writtenLeft_def writtenTop_def)

lemma written_None_iff:
  "writtenLeft H p w h aw ah c = None \<longleftrightarrow> w = None \<or> h = None \<or> c = None"
  "writtenTop H p w h aw ah c = None \<longleftrightarrow> w = None \<or> h = None \<or> c = None"
  by (simp_all add: writtenLeft_def writtenTop_def split: option.splits)

lemma updateSize_simps [simp]:
  "lastSeenX (updateSize p e w h s) = lastSeenX s"
  "lastSeenY (updateSize p e w h s) = lastSeenY s"
  "blockElement (updateSize p e w h s) = blockElement s"
  "blockElementTop (updateSize p e w h s) = blockElementTop s"
  "blockElementLeft (updateSize p e w h s) = blockElementLeft s"
  "imageWrapper (updateSize p e w h s) = imageWrapper s"
  "textElement (updateSize p e w h s) = textElement s"
  "width (updateSize p e w h s) = width s"
  "height (updateSize p e w h s) = height s"
  "calls (updateSize p e w h s) = calls s"
  "style_top (styles (updateSize p e w h s) x) = style_top (styles s x)"
  "style_left (styles (updateSize p e w h s) x) = style_left (styles s x)"
  "style_width (styles (updateSize p e w h s) e) = w"
  "style_height (styles (updateSize p e w h s) e) = h"
  by (simp_all add: updateSize_def Let_def split: option.split)

lemma readRenderedSize_Some:
  assumes "blockElement s = Some b"
  shows "readRenderedSize D p s =
           Inr (s\<lparr>width := baseWidth D p s, height := baseHeight D p s\<rparr>)"
  using assms by (simp add: readRenderedSize_def baseWidth_def baseHeight_def)

lemma readRenderedSize_frame:
  assumes "readRenderedSize D p s = Inr s1"
  shows "s1 = s\<lparr>width := baseWidth D p s, height := baseHeight D p s\<rparr>"
  using assms
  by (auto simp add: readRenderedSize_def baseWidth_def baseHeight_def
           split: if_splits option.splits)

lemma updatePosition_Some:
  assumes "blockElement s = Some b"
  shows "updatePosition H p aw ah s =
           Inr (if angle p \<noteq> 0
                then setPosition b
                       (writtenLeft H p (width s) (height s) aw ah (blockElementLeft s))
                       (writtenTop H p (width s) (height s) aw ah (blockElementTop s)) s
                else s)"
  using assms
  by (simp add: updatePosition_def writtenLeft_def writtenTop_def previewLeft_def
        previewTop_def num_op_def parseInt_def Let_def split: option.split)

lemma updatePosition_zero_angle:
  assumes "angle p = 0"
  shows "updatePosition H p aw ah s = Inr s"
  using assms by (simp add: updatePosition_def)

lemma appliedSize_simps:
  "appliedSize m (Some v) d = max (v + d) m" "appliedSize m None d = m"
  by (simp_all add: appliedSize_def)

lemma applied_max:
  "appliedWidth p s dW = appliedSize (minWidth p) (width s) dW"
  "appliedHeight p s dH = appliedSize (minHeight p) (height s) dH"
  by (simp_all add: appliedWidth_def appliedHeight_def appliedSize_def max_def
        split: option.split)

text \<open>A move event of a started gesture, in one equation.\<close>

lemma onResize_Some:
  assumes "blockElement s = Some b"
    and "getResizedWidthAndHeight H ev (angle p) (lastSeenX s) (lastSeenY s) dir = (dW, dH)"
    and "s1 = s\<lparr>width := baseWidth D p s, height := baseHeight D p s\<rparr>"
    and "aw = appliedWidth p s1 dW" and "ah = appliedHeight p s1 dH"
  shows "onResize H D p ev dir el s =
           Inr (updateSize p el aw ah
                  (if angle p \<noteq> 0
                   then setPosition b
                          (writtenLeft H p (width s1) (height s1) aw ah (blockElementLeft s))
                          (writtenTop H p (width s1) (height s1) aw ah (blockElementTop s)) s1
                   else s1))"
proof -
  have b1: "blockElement (s\<lparr>width := baseWidth D p s, height := baseHeight D p s\<rparr>) = Some b"
    using assms(1) by simp
  show ?thesis
    unfolding onResize_def assms(2,3,4,5) readRenderedSize_Some [OF assms(1)]
    by (simp add: updatePosition_Some [OF b1])
qed

text \<open>A move event at angle 0 needs no block element unless it reads the rendered size.\<close>

lemma onResize_zero_angle:
  assumes "angle p = 0"
    and "onResize H D p ev dir el s = Inr s'"
    and "getResizedWidthAndHeight H ev (angle p) (lastSeenX s) (lastSeenY s) dir = (dW, dH)"
    and "s1 = s\<lparr>width := baseWidth D p s, height := baseHeight D p s\<rparr>"
  shows "s' = updateSize p el (appliedWidth p s1 dW) (appliedHeight p s1 dH) s1"
proof (cases "readRenderedSize D p s")
  case (Inl e)
  then show ?thesis using assms(2,3) by (simp add: onResize_def)
next
  case (Inr s2)
  have "s2 = s1" using readRenderedSize_frame [OF Inr] assms(4) by simp
  then show ?thesis
    using assms(2,3) Inr by (simp add: onResize_def updatePosition_zero_angle [OF assms(1)])
qed

text \<open>The baseline is the same for every move event of a gesture.\<close>

lemma base_after_read [simp]:
  "baseWidth D p (s\<lparr>width := baseWidth D p s, height := baseHeight D p s\<rparr>) = baseWidth D p s"
  "baseHeight D p (s\<lparr>width := baseWidth D p s, height := baseHeight D p s\<rparr>) = baseHeight D p s"
  by (auto simp add: baseWidth_def baseHeight_def falsy_def split: option.splits)

lemma base_setPosition [simp]:
  "baseWidth D p (setPosition e l t s) = baseWidth D p s"
  "baseHeight D p (setPosition e l t s) = baseHeight D p s"
  by (simp_all add: baseWidth_def baseHeight_def split: option.splits)

lemma base_updateSize [simp]:
  "baseWidth D p (updateSize q e w h s) = baseWidth D p s"
  "baseHeight D p (updateSize q e w h s) = baseHeight D p s"
  by (simp_all add: baseWidth_def baseHeight_def split: option.splits)

lemma onResize_started:
  assumes "blockElement s = Some b"
  shows "\<exists>s'. onResize H D p ev dir el s = Inr s'
           \<and> blockElement s' = Some b
           \<and> lastSeenX s' = lastSeenX s \<and> lastSeenY s' = lastSeenY s
           \<and> blockElementTop s' = blockElementTop s
           \<and> blockElementLeft s' = blockElementLeft s
           \<and> textElement s' = textElement s \<and> imageWrapper s' = imageWrapper s
           \<and> calls s' = calls s
           \<and> width s' = baseWidth D p s \<and> height s' = baseHeight D p s
           \<and> baseWidth D p s' = baseWidth D p s \<and> baseHeight D p s' = baseHeight D p s"
proof -
  obtain dW dH where
    d: "getResizedWidthAndHeight H ev (angle p) (lastSeenX s) (lastSeenY s) dir = (dW, dH)"
    by (cases "getResizedWidthAndHeight H ev (angle p) (lastSeenX s) (lastSeenY s) dir")
  show ?thesis
    unfolding onResize_Some [OF assms d refl refl refl]
    using assms by simp
qed

subsection \<open>Media inserted from a URL\<close>

lemma started_image_eq:
  "onResizeStart page_helpers page (image_props w h) (pointer 100 100) DirBottomRight 2
     (render (image_props w h) (init_state page_styles)) = Inr (started_image w h)"
  by (simp add: run_defs started_image_def)



subsection \<open>The correction of the position under rotation\<close>

lemma started_text_eq:
  "onResizeStart page_helpers page (text_props a) (pointer 100 100) DirBottomRight 1
     (render (text_props a) (init_state page_styles)) = Inr (started_text a)"
  by (simp add: run_defs started_text_def)

text \<open>
  C7. For every move event of a started gesture with a nonzero angle, a finite baseline
  and a cached left and top, whose applied height \<open>ah\<close> is below 60, the left written to
  the block element is the cached left (in pixels) minus \<open>ah / 60\<close> times the difference
  \<open>dl\<close> of the horizontal offsets after and before the resize, and the top written is the
  cached top plus the whole difference \<open>dt\<close> of the vertical offsets: only the horizontal
  correction is scaled.
\<close>

theorem C7_small_height_scales_horizontal_correction:
  assumes "angle p \<noteq> 0" and "blockElement s = Some b"
    and "getResizedWidthAndHeight H ev (angle p) (lastSeenX s) (lastSeenY s) dir = (dW, dH)"
    and "baseWidth D p s = Some bw" and "baseHeight D p s = Some bh"
    and "blockElementLeft s = Some cl" and "blockElementTop s = Some ct"
    and "aw = max (bw + dW) (minWidth p)"
    and "ah = max (bh + dH) (minHeight p)"
    and "ah < 60"
    and "r = getRadianFromDeg H (angle p)"
    and "dl = pos_left (getBlockPositioning H aw ah r) - pos_left (getBlockPositioning H bw bh r)"
    and "dt = pos_top (getBlockPositioning H aw ah r) - pos_top (getBlockPositioning H bw bh r)"
  shows "\<exists>s'. onResize H D p ev dir el s = Inr s'
           \<and> style_left (styles s' b) =
               Some (getPercentageFromPixels H AxisX
                 (getPixelsFromPercentage H AxisX (of_int (parseInt_number cl))
                    - (ah / 60) * dl))
           \<and> style_top (styles s' b) =
               Some (getPercentageFromPixels H AxisY
                 (getPixelsFromPercentage H AxisY (of_int (parseInt_number ct)) + dt))"
proof -
  have scale: "dl / (60 / ah) = (ah / 60) * dl" by simp
  show ?thesis
    unfolding onResize_Some [OF assms(2,3) refl refl refl]
    using assms(1,10) scale
    by (simp add: applied_max appliedSize_def assms(4,5,6,7)
          previewLeft_def previewTop_def Let_def assms(8,9,11,12,13) [symmetric] mult.commute)
qed

theorem C7_witness:
  "angle (text_props 180) \<noteq> 0 \<and> blockElement (started_text 180) = Some 10
   \<and> getResizedWidthAndHeight page_helpers (pointer 80 160) (angle (text_props 180))
        (lastSeenX (started_text 180)) (lastSeenY (started_text 180)) DirBottomRight = (20, - 60)
   \<and> baseWidth page (text_props 180) (started_text 180) = Some 200
   \<and> baseHeight page (text_props 180) (started_text 180) = Some 100
   \<and> blockElementLeft (started_text 180) = Some 10
   \<and> blockElementTop (started_text 180) = Some 10
   \<and> (50::real) < 60
   \<and> (\<exists>s'. onResize page_helpers page (text_props 180) (pointer 80 160) DirBottomRight 1
               (started_text 180) = Inr s'
           \<and> style_left (styles s' 10) = Some ((80 - (50 / 60) * (- 10)) / 800 * 100)
           \<and> style_top (styles s' 10) = Some ((60 + 25) / 600 * 100))"
proof -
  have h1: "angle (text_props 180) \<noteq> 0" by (simp add: text_props_def)
  have h2: "blockElement (started_text 180) = Some 10" by (simp add: started_text_def)
  have h3: "getResizedWidthAndHeight page_helpers (pointer 80 160) (angle (text_props 180))
        (lastSeenX (started_text 180)) (lastSeenY (started_text 180)) DirBottomRight = (20, - 60)"
    by (simp add: run_defs started_text_def)
  have h4: "baseWidth page (text_props 180) (started_text 180) = Some 200"
    "baseHeight page (text_props 180) (started_text 180) = Some 100"
    "blockElementLeft (started_text 180) = Some 10"
    "blockElementTop (started_text 180) = Some 10"
    by (simp_all add: run_defs started_text_def)
  have h5: "(220::real) = max (200 + 20) (minWidth (text_props 180))"
    "(50::real) = max (100 + (- 60)) (minHeight (text_props 180))"
    by (simp_all add: text_props_def)
  have h6: "(50::real) < 60" by simp
  show ?thesis
    using C7_small_height_scales_horizontal_correction
            [where el = 1, OF h1 h2 h3 h4 h5 h6 refl refl refl] h1 h2 h3 h4 h6
    by (simp add: run_defs)
qed

subsection \<open>The overflow of the text\<close>

text \<open>
  C1, as stated, fails. The text block has a text element of 200 pixels of content and
  auto-fit is off; a move of the pointer by 50 pixels to the left asks for 150 pixels of
  width, and the move handler writes 150 by 100 pixels to the element, which had 200 by 100.
\<close>

theorem C1_counterexample:
  "map_sum id textElement
     (onResizeStart page_helpers page (text_props 0) (pointer 100 100) DirBottomRight 1
        (render (text_props 0) (init_state page_styles))) = Inr (Some 11)
   \<and> \<not> ampFitText (text_props 0)
   \<and> scrollWidth page 11 = 200
   \<and> previewSize 1 (init_state page_styles) = (200, 100)
   \<and> map_sum id (previewSize 1)
       (andThen
          (onResizeStart page_helpers page (text_props 0) (pointer 100 100) DirBottomRight 1
             (render (text_props 0) (init_state page_styles)))
          (onResize page_helpers page (text_props 0) (pointer 50 100) DirBottomRight 1))
       = Inr (150, 100)"
  by (simp add: run_defs)

text \<open>
  C1, amended. For every move event of a started gesture where a text element is present
  and the requested width is below its scroll width or the requested height below its
  scroll height, the move handler still writes the preview: the size of the element becomes
  the baseline plus the delta, not below the minimum. The handler does not read the text
  element.
\<close>

theorem C1_move_previews_despite_overflow:
  assumes "blockElement s = Some b"
    and "getResizedWidthAndHeight H ev (angle p) (lastSeenX s) (lastSeenY s) dir = (dW, dH)"
    and "textElement s = Some t"
    and "num_less (num_add (baseWidth D p s) dW) (scrollWidth D t)
         \<or> num_less (num_add (baseHeight D p s) dH) (scrollHeight D t)"
  shows "\<exists>s'. onResize H D p ev dir el s = Inr s'
           \<and> style_width (styles s' el) = appliedSize (minWidth p) (baseWidth D p s) dW
           \<and> style_height (styles s' el) = appliedSize (minHeight p) (baseHeight D p s) dH"
  unfolding onResize_Some [OF assms(1,2) refl refl refl]
  by (simp add: applied_max)

theorem C1_witness:
  "blockElement (started_text 0) = Some 10
   \<and> getResizedWidthAndHeight page_helpers (pointer 50 100) (angle (text_props 0))
        (lastSeenX (started_text 0)) (lastSeenY (started_text 0)) DirBottomRight = (- 50, 0)
   \<and> textElement (started_text 0) = Some 11
   \<and> baseWidth page (text_props 0) (started_text 0) = Some 200
   \<and> num_less (num_add (baseWidth page (text_props 0) (started_text 0)) (- 50))
        (scrollWidth page 11)
   \<and> (\<exists>s'. onResize page_helpers page (text_props 0) (pointer 50 100) DirBottomRight 1
               (started_text 0) = Inr s'
           \<and> style_width (styles s' 1) = 150 \<and> style_height (styles s' 1) = 100)"
proof -
  have h1: "blockElement (started_text 0) = Some 10" by (simp add: started_text_def)
  have h2: "getResizedWidthAndHeight page_helpers (pointer 50 100) (angle (text_props 0))
        (lastSeenX (started_text 0)) (lastSeenY (started_text 0)) DirBottomRight = (- 50, 0)"
    by (simp add: run_defs started_text_def)
  have h3: "textElement (started_text 0) = Some 11" by (simp add: started_text_def)
  have h4: "num_less (num_add (baseWidth page (text_props 0) (started_text 0)) (- 50))
        (scrollWidth page 11)"
    by (simp add: run_defs started_text_def)
  have h5: "baseWidth page (text_props 0) (started_text 0) = Some 200"
    by (simp add: run_defs started_text_def)
  show ?thesis
    using C1_move_previews_despite_overflow [where el = 1, OF h1 h2 h3 disjI1 [OF h4]]
      h1 h2 h3 h4 h5
    by (simp add: run_defs started_text_def)
qed

text \<open>
  C2, as stated, fails. After the same start and the same move, the end of the gesture at
  the same pointer position commits nothing: the log holds the one call of the start.
\<close>

theorem C2_counterexample:
  "map_sum id calls
     (andThen
        (andThen
           (onResizeStart page_helpers page (text_props 0) (pointer 100 100) DirBottomRight 1
              (render (text_props 0) (init_state page_styles)))
           (onResize page_helpers page (text_props 0) (pointer 50 100) DirBottomRight 1))
        (onResizeStop page_helpers page (text_props 0) (pointer 50 100) DirBottomRight))
     = Inr [CallResizeStart]"
  by (simp add: run_defs)

text \<open>
  C2, amended. At the end of a started gesture the handler computes the delta with the
  call that the move handler makes, from the pointer position cached at the start, and
  adds it to the width and height of the closure. It then makes the overflow check, as a
  final veto: with a text element whose scroll width exceeds the requested width, or
  whose scroll height exceeds the requested height, it returns without a call of the
  result callback and changes nothing. Otherwise it calls the result callback once; and
  where the width and height of the closure are numbers and the requested width and
  height are not below the minimum, the committed width and height are the size that
  lines 129 and 130 of the move handler apply, read by \<^verbatim>\<open>parseInt\<close>. Nothing is said of
  the committed size of a request below the minimum.
\<close>

theorem C2_stop_vetoes_on_overflow:
  assumes "blockElement s = Some b"
    and "getResizedWidthAndHeight H ev (angle p) (lastSeenX s) (lastSeenY s) dir = (dW, dH)"
  shows "if (case textElement s of
               None \<Rightarrow> False
             | Some t \<Rightarrow> num_less (num_add (width s) dW) (scrollWidth D t)
                         \<or> num_less (num_add (height s) dH) (scrollHeight D t))
         then onResizeStop H D p ev dir s = Inr s
         else (\<exists>r. onResizeStop H D p ev dir s = Inr (s\<lparr>calls := calls s @ [CallResizeStop r]\<rparr>)
                 \<and> (\<forall>w h. width s = Some w \<and> height s = Some h
                          \<and> minWidth p \<le> w + dW \<and> minHeight p \<le> h + dH
                      \<longrightarrow> res_width r = parseInt (Some (appliedWidth p s dW))
                          \<and> res_height r = parseInt (Some (appliedHeight p s dH))))"
proof (cases "case textElement s of
               None \<Rightarrow> False
             | Some t \<Rightarrow> num_less (num_add (width s) dW) (scrollWidth D t)
                         \<or> num_less (num_add (height s) dH) (scrollHeight D t)")
  case True
  then show ?thesis
    by (simp add: onResizeStop_def assms Let_def)
next
  case False
  let ?r = "\<lparr>res_width = parseInt (num_add (width s) dW),
             res_height = parseInt (num_add (height s) dH),
             positionTop = parseInt (style_top (styles s b)),
             positionLeft = parseInt (style_left (styles s b))\<rparr>"
  have stop: "onResizeStop H D p ev dir s = Inr (s\<lparr>calls := calls s @ [CallResizeStop ?r]\<rparr>)"
    using False by (simp add: onResizeStop_def assms Let_def)
  have size: "res_width ?r = parseInt (Some (appliedWidth p s dW))
                \<and> res_height ?r = parseInt (Some (appliedHeight p s dH))"
    if "width s = Some w \<and> height s = Some h
          \<and> minWidth p \<le> w + dW \<and> minHeight p \<le> h + dH" for w h
    using that by (simp add: num_add_def appliedWidth_def appliedHeight_def)
  from stop size have "\<exists>r. onResizeStop H D p ev dir s
          = Inr (s\<lparr>calls := calls s @ [CallResizeStop r]\<rparr>)
        \<and> (\<forall>w h. width s = Some w \<and> height s = Some h
                 \<and> minWidth p \<le> w + dW \<and> minHeight p \<le> h + dH
             \<longrightarrow> res_width r = parseInt (Some (appliedWidth p s dW))
                 \<and> res_height r = parseInt (Some (appliedHeight p s dH)))"
    by blast
  with False show ?thesis by simp
qed

theorem C2_witness:
  "blockElement (started_text 0) = Some 10
   \<and> getResizedWidthAndHeight page_helpers (pointer 50 100) (angle (text_props 0))
        (lastSeenX (started_text 0)) (lastSeenY (started_text 0)) DirBottomRight = (- 50, 0)
   \<and> getResizedWidthAndHeight page_helpers (pointer 150 130) (angle (text_props 0))
        (lastSeenX (started_text 0)) (lastSeenY (started_text 0)) DirBottomRight = (50, 30)
   \<and> onResizeStop page_helpers page (text_props 0) (pointer 50 100) DirBottomRight
        (started_text 0) = Inr (started_text 0)
   \<and> (\<exists>r. onResizeStop page_helpers page (text_props 0) (pointer 150 130) DirBottomRight
              (started_text 0)
            = Inr (started_text 0\<lparr>calls := [CallResizeStart, CallResizeStop r]\<rparr>)
          \<and> res_width r = Some 250 \<and> res_height r = Some 130)"
proof -
  have h1: "blockElement (started_text 0) = Some 10" by (simp add: started_text_def)
  have h2: "getResizedWidthAndHeight page_helpers (pointer 50 100) (angle (text_props 0))
        (lastSeenX (started_text 0)) (lastSeenY (started_text 0)) DirBottomRight = (- 50, 0)"
    by (simp add: run_defs started_text_def)
  have h3: "getResizedWidthAndHeight page_helpers (pointer 150 130) (angle (text_props 0))
        (lastSeenX (started_text 0)) (lastSeenY (started_text 0)) DirBottomRight = (50, 30)"
    by (simp add: run_defs started_text_def)
  have veto: "onResizeStop page_helpers page (text_props 0) (pointer 50 100) DirBottomRight
        (started_text 0) = Inr (started_text 0)"
    using C2_stop_vetoes_on_overflow [OF h1 h2, of page]
    by (simp add: run_defs started_text_def)
  have commit: "\<exists>r. onResizeStop page_helpers page (text_props 0) (pointer 150 130)
              DirBottomRight (started_text 0)
            = Inr (started_text 0\<lparr>calls := [CallResizeStart, CallResizeStop r]\<rparr>)
          \<and> res_width r = Some 250 \<and> res_height r = Some 130"
    using C2_stop_vetoes_on_overflow [OF h1 h3, of page]
    by (simp add: run_defs started_text_def)
  show ?thesis
    using h1 h2 h3 veto commit by blast
qed

subsection \<open>The committed result\<close>

lemma moved_text_eq:
  "onResize page_helpers page (text_props 180) (pointer (793 / 10) 145) DirBottomRight 1
     (started_text 180) = Inr moved_text"
  by (simp add: run_defs started_text_def moved_text_def)





subsection \<open>A start during a gesture\<close>

text \<open>
  C5, as stated, fails. A second start at (300, 250), with no end of the gesture in
  between, returns normally: the cached pointer position is replaced and the start
  callback is called a second time.
\<close>

theorem C5_counterexample:
  "map_sum id lastSeenX
     (andThen
        (onResizeStart page_helpers page (text_props 0) (pointer 100 100) DirBottomRight 1
           (render (text_props 0) (init_state page_styles)))
        (onResizeStart page_helpers page (text_props 0) (pointer 300 250) DirBottomRight 1))
     = Inr 300
   \<and> map_sum id calls
     (andThen
        (onResizeStart page_helpers page (text_props 0) (pointer 100 100) DirBottomRight 1
           (render (text_props 0) (init_state page_styles)))
        (onResizeStart page_helpers page (text_props 0) (pointer 300 250) DirBottomRight 1))
     = Inr [CallResizeStart, CallResizeStart]"
  by (simp add: run_defs)

text \<open>
  C5, amended. In every state, with or without a gesture going on, a start on an element
  inside a block returns normally: it replaces the cached pointer position, block element
  and position of the block element, and calls the start callback.
\<close>

theorem C5_start_always_resets:
  assumes "closest D el ''.wp-block'' = Some b"
  shows "\<exists>s'. onResizeStart H D p ev dir el s = Inr s'
           \<and> lastSeenX s' = clientX ev \<and> lastSeenY s' = clientY ev
           \<and> blockElement s' = Some b
           \<and> blockElementTop s' = style_top (styles s b)
           \<and> blockElementLeft s' = style_left (styles s b)
           \<and> calls s' = calls s @ [CallResizeStart]"
  using assms by (simp add: onResizeStart_def Let_def)

theorem C5_witness:
  "closest page 1 ''.wp-block'' = Some 10
   \<and> (\<exists>s'. onResizeStart page_helpers page (text_props 0) (pointer 300 250) DirBottomRight 1
               (started_text 0) = Inr s'
           \<and> lastSeenX s' = 300 \<and> lastSeenY s' = 250 \<and> blockElement s' = Some 10
           \<and> calls s' = [CallResizeStart, CallResizeStart])"
proof -
  have h: "closest page 1 ''.wp-block'' = Some 10" by (simp add: page_def)
  show ?thesis
    using C5_start_always_resets [OF h, of page_helpers "text_props 0" "pointer 300 250"
        DirBottomRight "started_text 0"] h
    by (auto simp add: started_text_def pointer_def)
qed

subsection \<open>The minimum size\<close>

text \<open>The size that a move event of a started gesture writes to the element is the
  baseline plus the delta, and the minimum where that is lower.\<close>

lemma onResize_preview_size:
  assumes "blockElement s = Some b"
    and "getResizedWidthAndHeight H ev (angle p) (lastSeenX s) (lastSeenY s) dir = (dW, dH)"
  shows "\<exists>s'. onResize H D p ev dir el s = Inr s'
           \<and> previewSize el s' =
               (appliedSize (minWidth p) (baseWidth D p s) dW,
                appliedSize (minHeight p) (baseHeight D p s) dH)"
  unfolding onResize_Some [OF assms(1,2) refl refl refl]
  by (simp add: applied_max previewSize_def)

text \<open>
  C3 holds for the preview and fails for the committed result. On a freshly loaded module
  the image block of 200 by 100 pixels, with a minimum width of 50, is dragged 180 pixels
  to the left: the move handler shows 50 by 100 pixels, and the end of the gesture commits
  a width of 20.
\<close>

theorem C3_commit_below_minimum:
  "minWidth (image_props (Some 200) (Some 100)) = 50
   \<and> map_sum id (previewSize 2)
       (andThen (image_start (init_state page_styles))
          (onResize page_helpers page (image_props (Some 200) (Some 100)) (pointer (- 80) 100)
             DirBottomRight 2))
       = Inr (50, 100)
   \<and> map_sum id calls (image_gesture (pointer (- 80) 100) (init_state page_styles))
       = Inr [CallResizeStart,
              CallResizeStop \<lparr>res_width = Some 20, res_height = Some 100,
                              positionTop = Some 10, positionLeft = Some 10\<rparr>]"
  by (simp add: run_defs image_start_def image_gesture_def)

subsection \<open>State that outlives a gesture\<close>

text \<open>A start replaces the pointer position, the block element and its position that
  an earlier gesture cached: what they held has no effect on it.\<close>

lemma onResizeStart_forgets_cache:
  "onResizeStart H D p ev dir el
     (s\<lparr>lastSeenX := x, lastSeenY := y, blockElement := be,
        blockElementTop := t, blockElementLeft := l\<rparr>)
   = onResizeStart H D p ev dir el s"
  by (simp add: onResizeStart_def Let_def split: option.split)

text \<open>The text element is assigned for a text block without auto-fit only (line 102);
  any other start keeps the one of the gesture before.\<close>

lemma onResizeStart_keeps_textElement:
  assumes "\<not> (isBlockWithText H p \<and> \<not> ampFitText p)"
    and "onResizeStart H D p ev dir el s = Inr s'"
  shows "textElement s' = textElement s"
  using assms by (auto simp add: onResizeStart_def Let_def split: option.splits)

text \<open>
  C4 fails on the text element. The gesture on the text block caches its text element,
  whose content is 200 pixels wide. The start of the next gesture, on the image block,
  leaves that variable as it is, and the end of this gesture, asking for 150 by 100 pixels,
  is vetoed by the text of the other block: nothing is committed. The same gesture on a
  freshly loaded module commits 150 by 100 pixels.
\<close>

theorem C4_text_element_outlives_gesture:
  "map_sum id textElement (andThen text_gesture image_start) = Inr (Some 11)
   \<and> map_sum id calls (andThen text_gesture (image_gesture (pointer 50 100)))
       = Inr [CallResizeStart,
              CallResizeStop \<lparr>res_width = Some 250, res_height = Some 130,
                              positionTop = Some 10, positionLeft = Some 10\<rparr>,
              CallResizeStart]
   \<and> map_sum id calls (image_gesture (pointer 50 100) (init_state page_styles))
       = Inr [CallResizeStart,
              CallResizeStop \<lparr>res_width = Some 150, res_height = Some 100,
                              positionTop = Some 10, positionLeft = Some 10\<rparr>]"
  by (simp add: run_defs text_gesture_def image_start_def image_gesture_def)

subsection \<open>Whole gestures\<close>

lemma moves_append:
  "moves H D p (ms @ ms') s = andThen (moves H D p ms s) (moves H D p ms')"
  by (induction ms arbitrary: s) (auto simp add: andThen_def split: sum.splits)

lemma onResizeStart_Some:
  assumes "closest D el ''.wp-block'' = Some b"
  shows "\<exists>s'. onResizeStart H D p ev dir el s = Inr s'
           \<and> blockElement s' = Some b
           \<and> lastSeenX s' = clientX ev \<and> lastSeenY s' = clientY ev
           \<and> blockElementTop s' = style_top (styles s b)
           \<and> blockElementLeft s' = style_left (styles s b)
           \<and> styles s' = styles s \<and> width s' = width s \<and> height s' = height s
           \<and> calls s' = calls s @ [CallResizeStart]"
  using assms by (simp add: onResizeStart_def Let_def)

lemma onResizeStart_frame:
  assumes "onResizeStart H D p ev dir el s = Inr s'"
  shows "\<exists>b. closest D el ''.wp-block'' = Some b \<and> blockElement s' = Some b
           \<and> lastSeenX s' = clientX ev \<and> lastSeenY s' = clientY ev
           \<and> blockElementTop s' = style_top (styles s b)
           \<and> blockElementLeft s' = style_left (styles s b)
           \<and> styles s' = styles s \<and> width s' = width s \<and> height s' = height s"
proof (cases "closest D el ''.wp-block''")
  case None
  then show ?thesis using assms by (simp add: onResizeStart_def)
next
  case (Some b)
  from onResizeStart_Some [OF Some, of H p ev dir s] assms
  show ?thesis using Some by auto
qed

lemma onResizeStop_frame:
  assumes "onResizeStop H D p ev dir s = Inr s'"
  shows "styles s' = styles s
       \<and> (calls s' = calls s
          \<or> (\<exists>b. blockElement s = Some b
                \<and> (\<exists>r. calls s' = calls s @ [CallResizeStop r]
                      \<and> positionTop r = parseInt (style_top (styles s b))
                      \<and> positionLeft r = parseInt (style_left (styles s b)))))"
  using assms
  by (auto simp add: onResizeStop_def Let_def split: prod.splits if_splits option.splits)

lemma onResize_zero_angle_frame:
  assumes "angle p = 0" and "onResize H D p ev dir el s = Inr s'"
  shows "blockElement s' = blockElement s
       \<and> (\<forall>e. style_top (styles s' e) = style_top (styles s e)
              \<and> style_left (styles s' e) = style_left (styles s e))"
proof -
  obtain dW dH where
    d: "getResizedWidthAndHeight H ev (angle p) (lastSeenX s) (lastSeenY s) dir = (dW, dH)"
    by (cases "getResizedWidthAndHeight H ev (angle p) (lastSeenX s) (lastSeenY s) dir")
  show ?thesis
    unfolding onResize_zero_angle [OF assms d refl] by simp
qed

lemma moves_zero_angle_frame:
  assumes "angle p = 0" and "moves H D p ms s = Inr s'"
  shows "blockElement s' = blockElement s
       \<and> (\<forall>e. style_top (styles s' e) = style_top (styles s e)
              \<and> style_left (styles s' e) = style_left (styles s e))"
  using assms(2)
proof (induction ms arbitrary: s)
  case Nil
  then show ?case by simp
next
  case (Cons m ms)
  obtain ev dir el where m: "m = (ev, dir, el)" by (cases m)
  from Cons.prems m obtain s1 where
    s1: "onResize H D p ev dir el s = Inr s1" and rest: "moves H D p ms s1 = Inr s'"
    by (auto split: sum.splits)
  from onResize_zero_angle_frame [OF assms(1) s1] Cons.IH [OF rest]
  show ?case by simp
qed

text \<open>
  C6, as stated, fails. The image block of 200 by 100 pixels at angle 0 starts at top
  10.7% and left 10.3%; it is started at (100, 100), moved to (150, 130) and ended there.
  The committed position is top 10 and left 10, not the position at the start.
\<close>

theorem C6_counterexample:
  "previewPosition 20 (init_state (styles_at (107 / 10) (103 / 10)))
     = (Some (107 / 10), Some (103 / 10))
   \<and> angle (image_props (Some 200) (Some 100)) = 0
   \<and> map_sum id calls
       (image_gesture (pointer 150 130) (init_state (styles_at (107 / 10) (103 / 10))))
       = Inr [CallResizeStart,
              CallResizeStop \<lparr>res_width = Some 250, res_height = Some 130,
                              positionTop = Some 10, positionLeft = Some 10\<rparr>]"
proof -
  have floors: "\<lfloor>107 / 10 :: real\<rfloor> = 10" "\<lfloor>103 / 10 :: real\<rfloor> = 10"
    by linarith+
  show ?thesis
    by (simp add: run_defs image_start_def image_gesture_def floors)
qed

text \<open>
  C6, amended. For every gesture at angle 0, that is a start, any move events and an end
  that all return, every element has the inline top and left it had before the gesture:
  no handler writes a position. The end of the gesture either commits nothing or commits,
  as positionTop and positionLeft, what \<^verbatim>\<open>parseInt\<close> reads from the top and left that the
  block element had before the gesture: the position at the start cut to an integer, which
  is that position only where it is an integer.
\<close>

theorem C6_zero_angle_keeps_position:
  assumes "angle p = 0"
    and "onResizeStart H D p ev0 dir0 el0 s0 = Inr s1"
    and "moves H D p ms s1 = Inr s2"
    and "onResizeStop H D p ev dir s2 = Inr s3"
  shows "(\<forall>e. style_top (styles s3 e) = style_top (styles s0 e)
              \<and> style_left (styles s3 e) = style_left (styles s0 e))
       \<and> (calls s3 = calls s2
          \<or> (\<exists>b r. closest D el0 ''.wp-block'' = Some b
                \<and> calls s3 = calls s2 @ [CallResizeStop r]
                \<and> positionTop r = parseInt (style_top (styles s0 b))
                \<and> positionLeft r = parseInt (style_left (styles s0 b))))"
proof -
  from onResizeStart_frame [OF assms(2)] obtain b where
    b: "closest D el0 ''.wp-block'' = Some b" "blockElement s1 = Some b"
    and st1: "styles s1 = styles s0"
    by blast
  from moves_zero_angle_frame [OF assms(1,3)]
  have b2: "blockElement s2 = Some b"
    and st2: "\<And>e. style_top (styles s2 e) = style_top (styles s0 e)"
             "\<And>e. style_left (styles s2 e) = style_left (styles s0 e)"
    using b(2) st1 by simp_all
  from onResizeStop_frame [OF assms(4)]
  have st3: "styles s3 = styles s2"
    and c: "calls s3 = calls s2
          \<or> (\<exists>r. calls s3 = calls s2 @ [CallResizeStop r]
                \<and> positionTop r = parseInt (style_top (styles s2 b))
                \<and> positionLeft r = parseInt (style_left (styles s2 b)))"
    using b2 by auto
  show ?thesis
    using c b(1) by (auto simp add: st3 st2)
qed

theorem C6_witness:
  "angle (image_props (Some 200) (Some 100)) = 0
   \<and> image_start (init_state (styles_at (107 / 10) (103 / 10)))
       = Inr (started_image (Some 200) (Some 100)
               \<lparr>blockElementTop := Some (107 / 10), blockElementLeft := Some (103 / 10),
                styles := styles_at (107 / 10) (103 / 10)\<rparr>)
   \<and> moves page_helpers page (image_props (Some 200) (Some 100))
        [(pointer 120 110, DirBottomRight, 2), (pointer 150 130, DirBottomRight, 2)]
        (started_image (Some 200) (Some 100)
               \<lparr>blockElementTop := Some (107 / 10), blockElementLeft := Some (103 / 10),
                styles := styles_at (107 / 10) (103 / 10)\<rparr>)
       = Inr (setSize 21 250 130 (setSize 2 250 130
               (started_image (Some 200) (Some 100)
                 \<lparr>blockElementTop := Some (107 / 10), blockElementLeft := Some (103 / 10),
                  styles := styles_at (107 / 10) (103 / 10)\<rparr>)))
   \<and> onResizeStop page_helpers page (image_props (Some 200) (Some 100)) (pointer 150 130)
        DirBottomRight
        (setSize 21 250 130 (setSize 2 250 130
               (started_image (Some 200) (Some 100)
                 \<lparr>blockElementTop := Some (107 / 10), blockElementLeft := Some (103 / 10),
                  styles := styles_at (107 / 10) (103 / 10)\<rparr>)))
       = Inr (setSize 21 250 130 (setSize 2 250 130
               (started_image (Some 200) (Some 100)
                 \<lparr>blockElementTop := Some (107 / 10), blockElementLeft := Some (103 / 10),
                  styles := styles_at (107 / 10) (103 / 10)\<rparr>))
               \<lparr>calls := [CallResizeStart,
                   CallResizeStop \<lparr>res_width = Some 250, res_height = Some 130,
                                   positionTop = Some 10, positionLeft = Some 10\<rparr>]\<rparr>)
   \<and> parseInt (style_top (styles_at (107 / 10) (103 / 10) 20)) = Some 10
   \<and> parseInt (style_left (styles_at (107 / 10) (103 / 10) 20)) = Some 10"
proof -
  let ?p = "image_props (Some 200) (Some 100)"
  let ?s0 = "render ?p (init_state (styles_at (107 / 10) (103 / 10)))"
  let ?s1 = "started_image (Some 200) (Some 100)
               \<lparr>blockElementTop := Some (107 / 10), blockElementLeft := Some (103 / 10),
                styles := styles_at (107 / 10) (103 / 10)\<rparr>"
  let ?s2 = "setSize 21 250 130 (setSize 2 250 130 ?s1)"
  let ?s3 = "?s2\<lparr>calls := [CallResizeStart,
                   CallResizeStop \<lparr>res_width = Some 250, res_height = Some 130,
                                   positionTop = Some 10, positionLeft = Some 10\<rparr>]\<rparr>"
  have floors: "\<lfloor>107 / 10 :: real\<rfloor> = 10" "\<lfloor>103 / 10 :: real\<rfloor> = 10"
    by linarith+
  have h1: "angle ?p = 0" by (simp add: image_props_def)
  have h2: "onResizeStart page_helpers page ?p (pointer 100 100) DirBottomRight 2 ?s0 = Inr ?s1"
    by (simp add: run_defs started_image_def)
  have h3: "moves page_helpers page ?p
        [(pointer 120 110, DirBottomRight, 2), (pointer 150 130, DirBottomRight, 2)] ?s1
       = Inr ?s2"
    by (simp add: run_defs started_image_def fun_upd_twist)
  have h4: "onResizeStop page_helpers page ?p (pointer 150 130) DirBottomRight ?s2 = Inr ?s3"
    by (simp add: run_defs started_image_def floors)
  have h5: "parseInt (style_top (styles_at (107 / 10) (103 / 10) 20)) = Some 10"
    "parseInt (style_left (styles_at (107 / 10) (103 / 10) 20)) = Some 10"
    by (simp_all add: run_defs floors)
  show ?thesis
    using C6_zero_angle_keeps_position [OF h1 h2 h3 h4] h1 h2 h3 h4 h5
    by (simp add: image_start_def)
qed

lemma moves_started:
  assumes "blockElement s = Some b"
  shows "\<exists>s'. moves H D p ms s = Inr s'
           \<and> blockElement s' = Some b
           \<and> lastSeenX s' = lastSeenX s \<and> lastSeenY s' = lastSeenY s
           \<and> blockElementTop s' = blockElementTop s
           \<and> blockElementLeft s' = blockElementLeft s
           \<and> baseWidth D p s' = baseWidth D p s \<and> baseHeight D p s' = baseHeight D p s"
  using assms
proof (induction ms arbitrary: s)
  case Nil
  then show ?case by simp
next
  case (Cons m ms)
  obtain ev dir el where m: "m = (ev, dir, el)" by (cases m)
  from onResize_started [OF Cons.prems, of H D p ev dir el] obtain s1 where
    s1: "onResize H D p ev dir el s = Inr s1" "blockElement s1 = Some b"
      "lastSeenX s1 = lastSeenX s" "lastSeenY s1 = lastSeenY s"
      "blockElementTop s1 = blockElementTop s" "blockElementLeft s1 = blockElementLeft s"
      "baseWidth D p s1 = baseWidth D p s" "baseHeight D p s1 = baseHeight D p s"
    by blast
  from Cons.IH [OF s1(2)] show ?case
    by (simp add: m s1)
qed

text \<open>The position of the block element after a move event at a nonzero angle: the
  computed top and left, and for one that is \<^verbatim>\<open>NaN\<close> what the element had.\<close>

lemma onResize_position:
  assumes "angle p \<noteq> 0" and "blockElement s = Some b"
    and "getResizedWidthAndHeight H ev (angle p) (lastSeenX s) (lastSeenY s) dir = (dW, dH)"
    and "aw = appliedSize (minWidth p) (baseWidth D p s) dW"
    and "ah = appliedSize (minHeight p) (baseHeight D p s) dH"
  shows "\<exists>s'. onResize H D p ev dir el s = Inr s'
           \<and> style_top (styles s' b) =
               assigned (style_top (styles s b))
                 (writtenTop H p (baseWidth D p s) (baseHeight D p s) aw ah (blockElementTop s))
           \<and> style_left (styles s' b) =
               assigned (style_left (styles s b))
                 (writtenLeft H p (baseWidth D p s) (baseHeight D p s) aw ah
                    (blockElementLeft s))"
  unfolding onResize_Some [OF assms(2,3) refl refl refl]
  using assms(1) by (simp add: applied_max assms(4,5))

text \<open>A top or left that is computed as \<^verbatim>\<open>NaN\<close> in a gesture is so for all of its move
  events, which then leave that of the block element as it is.\<close>

lemma moves_keep_unwritten:
  assumes "angle p \<noteq> 0" and "blockElement s = Some b" and "moves H D p ms s = Inr s'"
  shows "(baseWidth D p s = None \<or> baseHeight D p s = None \<or> blockElementTop s = None
            \<longrightarrow> style_top (styles s' b) = style_top (styles s b))
       \<and> (baseWidth D p s = None \<or> baseHeight D p s = None \<or> blockElementLeft s = None
            \<longrightarrow> style_left (styles s' b) = style_left (styles s b))"
  using assms(2,3)
proof (induction ms arbitrary: s)
  case Nil
  then show ?case by simp
next
  case (Cons m ms)
  obtain ev dir el where m: "m = (ev, dir, el)" by (cases m)
  obtain dW dH where
    d: "getResizedWidthAndHeight H ev (angle p) (lastSeenX s) (lastSeenY s) dir = (dW, dH)"
    by (cases "getResizedWidthAndHeight H ev (angle p) (lastSeenX s) (lastSeenY s) dir")
  from onResize_started [OF Cons.prems(1), of H D p ev dir el] obtain s1 where
    s1: "onResize H D p ev dir el s = Inr s1" "blockElement s1 = Some b"
      "blockElementTop s1 = blockElementTop s" "blockElementLeft s1 = blockElementLeft s"
      "baseWidth D p s1 = baseWidth D p s" "baseHeight D p s1 = baseHeight D p s"
    by blast
  from onResize_position [OF assms(1) Cons.prems(1) d refl refl, of D el] s1(1)
  have pos: "style_top (styles s1 b) =
               assigned (style_top (styles s b))
                 (writtenTop H p (baseWidth D p s) (baseHeight D p s)
                    (appliedSize (minWidth p) (baseWidth D p s) dW)
                    (appliedSize (minHeight p) (baseHeight D p s) dH) (blockElementTop s))"
      "style_left (styles s1 b) =
               assigned (style_left (styles s b))
                 (writtenLeft H p (baseWidth D p s) (baseHeight D p s)
                    (appliedSize (minWidth p) (baseWidth D p s) dW)
                    (appliedSize (minHeight p) (baseHeight D p s) dH) (blockElementLeft s))"
    by simp_all
  have rest: "moves H D p ms s1 = Inr s'"
    using Cons.prems(2) by (simp add: m s1(1))
  note ih = Cons.IH [OF s1(2) rest]
  show ?case
  proof (intro conjI impI)
    assume u: "baseWidth D p s = None \<or> baseHeight D p s = None \<or> blockElementTop s = None"
    then have "writtenTop H p (baseWidth D p s) (baseHeight D p s)
                 (appliedSize (minWidth p) (baseWidth D p s) dW)
                 (appliedSize (minHeight p) (baseHeight D p s) dH) (blockElementTop s) = None"
      by (simp add: written_None_iff)
    then have "style_top (styles s1 b) = style_top (styles s b)"
      by (simp add: pos(1))
    moreover from ih u have "style_top (styles s' b) = style_top (styles s1 b)"
      by (simp add: s1)
    ultimately show "style_top (styles s' b) = style_top (styles s b)" by simp
  next
    assume u: "baseWidth D p s = None \<or> baseHeight D p s = None \<or> blockElementLeft s = None"
    then have "writtenLeft H p (baseWidth D p s) (baseHeight D p s)
                 (appliedSize (minWidth p) (baseWidth D p s) dW)
                 (appliedSize (minHeight p) (baseHeight D p s) dH) (blockElementLeft s) = None"
      by (simp add: written_None_iff)
    then have "style_left (styles s1 b) = style_left (styles s b)"
      by (simp add: pos(2))
    moreover from ih u have "style_left (styles s' b) = style_left (styles s1 b)"
      by (simp add: s1)
    ultimately show "style_left (styles s' b) = style_left (styles s b)" by simp
  qed
qed

text \<open>
  C10. In every started gesture with a nonzero angle, after any move events, a move event
  leaves the block element at a top and left that are computed from the pointer position
  and the top and left cached at the start alone (with the props and the baseline of the
  gesture): two runs of the gesture that end with a move to the same pointer position
  show the same position, whatever move events came before. For a finite baseline and a
  block element with an inline top and left, that position is \<open>previewTop\<close> and
  \<open>previewLeft\<close>; a top or left that is computed as \<^verbatim>\<open>NaN\<close> is the one from before
  the gesture.
\<close>

theorem C10_preview_position_ignores_earlier_moves:
  assumes "angle p \<noteq> 0"
    and "onResizeStart H D p ev0 dir0 el0 s0 = Inr s1"
    and "getResizedWidthAndHeight H ev (angle p) (clientX ev0) (clientY ev0) dir = (dW, dH)"
    and "aw = appliedSize (minWidth p) (baseWidth D p s1) dW"
    and "ah = appliedSize (minHeight p) (baseHeight D p s1) dH"
  shows "\<exists>b sa sb. closest D el0 ''.wp-block'' = Some b
           \<and> moves H D p (msa @ [(ev, dir, ela)]) s1 = Inr sa
           \<and> moves H D p (msb @ [(ev, dir, elb)]) s1 = Inr sb
           \<and> previewPosition b sa = previewPosition b sb
           \<and> previewPosition b sa =
               (assigned (style_top (styles s0 b))
                  (writtenTop H p (baseWidth D p s1) (baseHeight D p s1) aw ah
                     (style_top (styles s0 b))),
                assigned (style_left (styles s0 b))
                  (writtenLeft H p (baseWidth D p s1) (baseHeight D p s1) aw ah
                     (style_left (styles s0 b))))"
proof -
  from onResizeStart_frame [OF assms(2)] obtain b where
    b: "closest D el0 ''.wp-block'' = Some b" "blockElement s1 = Some b"
    and c: "lastSeenX s1 = clientX ev0" "lastSeenY s1 = clientY ev0"
      "blockElementTop s1 = style_top (styles s0 b)"
      "blockElementLeft s1 = style_left (styles s0 b)"
      "styles s1 = styles s0"
    by blast
  let ?T = "writtenTop H p (baseWidth D p s1) (baseHeight D p s1) aw ah
              (style_top (styles s0 b))"
  let ?L = "writtenLeft H p (baseWidth D p s1) (baseHeight D p s1) aw ah
              (style_left (styles s0 b))"
  have last: "\<exists>s'. moves H D p (ms @ [(ev, dir, el)]) s1 = Inr s'
      \<and> previewPosition b s' =
          (assigned (style_top (styles s0 b)) ?T, assigned (style_left (styles s0 b)) ?L)"
    for ms el
  proof -
    from moves_started [OF b(2), of H D p ms] obtain s2 where
      s2: "moves H D p ms s1 = Inr s2" "blockElement s2 = Some b"
        "lastSeenX s2 = lastSeenX s1" "lastSeenY s2 = lastSeenY s1"
        "blockElementTop s2 = blockElementTop s1" "blockElementLeft s2 = blockElementLeft s1"
        "baseWidth D p s2 = baseWidth D p s1" "baseHeight D p s2 = baseHeight D p s1"
      by blast
    have d: "getResizedWidthAndHeight H ev (angle p) (lastSeenX s2) (lastSeenY s2) dir
               = (dW, dH)"
      using assms(3) by (simp add: s2 c)
    from onResize_position [OF assms(1) s2(2) d refl refl, of D el] obtain s3 where
      s3: "onResize H D p ev dir el s2 = Inr s3"
        "style_top (styles s3 b) = assigned (style_top (styles s2 b)) ?T"
        "style_left (styles s3 b) = assigned (style_left (styles s2 b)) ?L"
      by (auto simp add: s2 c assms(4,5))
    from moves_keep_unwritten [OF assms(1) b(2) s2(1)]
    have keep: "?T = None \<Longrightarrow> style_top (styles s2 b) = style_top (styles s0 b)"
      "?L = None \<Longrightarrow> style_left (styles s2 b) = style_left (styles s0 b)"
      by (simp_all add: written_None_iff c)
    have top: "style_top (styles s3 b) = assigned (style_top (styles s0 b)) ?T"
      using s3(2) keep(1) by (cases ?T) simp_all
    have left: "style_left (styles s3 b) = assigned (style_left (styles s0 b)) ?L"
      using s3(3) keep(2) by (cases ?L) simp_all
    show ?thesis
      by (simp add: moves_append andThen_def s2(1) s3(1) previewPosition_def top left)
  qed
  from last [of msa ela] last [of msb elb] b(1) show ?thesis
    by auto
qed

theorem C10_witness:
  "angle (text_props 180) \<noteq> 0
   \<and> onResizeStart page_helpers page (text_props 180) (pointer 100 100) DirBottomRight 1
       (render (text_props 180) (init_state page_styles)) = Inr (started_text 180)
   \<and> getResizedWidthAndHeight page_helpers (pointer (793 / 10) 145) (angle (text_props 180))
       (clientX (pointer 100 100)) (clientY (pointer 100 100)) DirBottomRight
       = (207 / 10, - 45)
   \<and> (\<exists>sa sb.
        moves page_helpers page (text_props 180)
          ([] @ [(pointer (793 / 10) 145, DirBottomRight, 1)]) (started_text 180) = Inr sa
      \<and> moves page_helpers page (text_props 180)
          ([(pointer 300 20, DirBottomRight, 1), (pointer 90 400, DirBottomRight, 1)]
             @ [(pointer (793 / 10) 145, DirBottomRight, 1)]) (started_text 180) = Inr sb
      \<and> previewPosition 10 sa = previewPosition 10 sb
      \<and> previewPosition 10 sa = (Some (55 / 4), Some (35795 / 3200)))"
proof -
  have h1: "angle (text_props 180) \<noteq> 0" by (simp add: text_props_def)
  have h2: "onResizeStart page_helpers page (text_props 180) (pointer 100 100) DirBottomRight 1
       (render (text_props 180) (init_state page_styles)) = Inr (started_text 180)"
    by (rule started_text_eq)
  have h3: "getResizedWidthAndHeight page_helpers (pointer (793 / 10) 145)
       (angle (text_props 180)) (clientX (pointer 100 100)) (clientY (pointer 100 100))
       DirBottomRight = (207 / 10, - 45)"
    by (simp add: run_defs)
  have c: "closest page 1 ''.wp-block'' = Some 10" by (simp add: page_def)
  let ?s0 = "render (text_props 180) (init_state page_styles)"
  let ?aw = "appliedSize (minWidth (text_props 180))
               (baseWidth page (text_props 180) (started_text 180)) (207 / 10)"
  let ?ah = "appliedSize (minHeight (text_props 180))
               (baseHeight page (text_props 180) (started_text 180)) (- 45)"
  let ?top = "assigned (style_top (styles ?s0 10))
                (writtenTop page_helpers (text_props 180)
                   (baseWidth page (text_props 180) (started_text 180))
                   (baseHeight page (text_props 180) (started_text 180)) ?aw ?ah
                   (style_top (styles ?s0 10)))"
  let ?left = "assigned (style_left (styles ?s0 10))
                (writtenLeft page_helpers (text_props 180)
                   (baseWidth page (text_props 180) (started_text 180))
                   (baseHeight page (text_props 180) (started_text 180)) ?aw ?ah
                   (style_left (styles ?s0 10)))"
  have v: "?top = Some (55 / 4)" "?left = Some (35795 / 3200)"
    by (simp_all add: run_defs started_text_def previewTop_def previewLeft_def)
  from C10_preview_position_ignores_earlier_moves
         [where ela = 1 and elb = 1 and msa = "[]"
            and msb = "[(pointer 300 20, DirBottomRight, 1), (pointer 90 400, DirBottomRight, 1)]",
          OF h1 h2 h3 refl refl]
  obtain sa sb where
    r: "moves page_helpers page (text_props 180)
          ([] @ [(pointer (793 / 10) 145, DirBottomRight, 1)]) (started_text 180) = Inr sa"
       "moves page_helpers page (text_props 180)
          ([(pointer 300 20, DirBottomRight, 1), (pointer 90 400, DirBottomRight, 1)]
             @ [(pointer (793 / 10) 145, DirBottomRight, 1)]) (started_text 180) = Inr sb"
       "previewPosition 10 sa = previewPosition 10 sb"
       "previewPosition 10 sa = (?top, ?left)"
    unfolding c by blast
  from r(4) have "previewPosition 10 sa = (Some (55 / 4), Some (35795 / 3200))"
    unfolding v .
  with r(1,2,3) h1 h2 h3 show ?thesis
    by blast
qed
end
